theory Spec2Isabelle
  imports Main "HOL-Library.Sublist"
begin

section \<open>Text and the string methods the program calls\<close>

text \<open>
  The program is Python. A Python \<^verbatim>\<open>str\<close> is a sequence of Unicode code points, so a
  text is modelled as a list of code points (natural numbers); \<open>S ''..''\<close> writes an
  ASCII literal. The prompt template of \<^verbatim>\<open>build_prompt\<close> contains one character outside
  ASCII (an en dash, U+2013), and \<^verbatim>\<open>str.strip\<close> removes Unicode white space, which is why
  8-bit characters would not do.
\<close>

type_synonym pystr = "nat list"

abbreviation S :: "string \<Rightarrow> pystr" where
  "S s \<equiv> map of_char s"

text \<open>
  \<^verbatim>\<open>s.find(sub)\<close>: the lowest index at which \<open>sub\<close> occurs in \<open>s\<close>, or \<open>-1\<close>.
  \<open>find_sub\<close> is the search itself, \<open>py_find\<close> adds Python's \<open>-1\<close> convention.
\<close>

fun find_sub :: "'a list \<Rightarrow> 'a list \<Rightarrow> nat option" where
  "find_sub sub [] = (if sub = [] then Some 0 else None)"
| "find_sub sub (c # s) =
     (if prefix sub (c # s) then Some 0 else map_option Suc (find_sub sub s))"

definition py_find :: "'a list \<Rightarrow> 'a list \<Rightarrow> int" where
  "py_find sub s = (case find_sub sub s of None \<Rightarrow> - 1 | Some i \<Rightarrow> int i)"

text \<open>
  \<^verbatim>\<open>s.rfind(sub)\<close>: the highest index at which \<open>sub\<close> occurs, or \<open>-1\<close>. The last
  occurrence in \<open>s\<close> is the first occurrence of the reversed pattern in the reversed
  text, counted from the other end.
\<close>

definition rfind_sub :: "'a list \<Rightarrow> 'a list \<Rightarrow> nat option" where
  "rfind_sub sub s =
     map_option (\<lambda>j. length s - j - length sub) (find_sub (rev sub) (rev s))"

definition py_rfind :: "'a list \<Rightarrow> 'a list \<Rightarrow> int" where
  "py_rfind sub s = (case rfind_sub sub s of None \<Rightarrow> - 1 | Some i \<Rightarrow> int i)"

text \<open>
  \<^verbatim>\<open>s[i:j]\<close>: a negative bound counts from the end, and both bounds are clamped to
  the text.
\<close>

definition py_slice :: "'a list \<Rightarrow> int \<Rightarrow> int \<Rightarrow> 'a list" where
  "py_slice s i j =
     (let n = int (length s);
          lo = (if i < 0 then max 0 (i + n) else min i n);
          hi = (if j < 0 then max 0 (j + n) else min j n)
      in take (nat (hi - lo)) (drop (nat lo) s))"

text \<open>
  \<^verbatim>\<open>s.split(sep)\<close> without a limit cuts at every occurrence of \<open>sep\<close>, found from
  left to right without overlap; the result is never empty. Python refuses an empty
  separator with a ValueError; the program only passes the literal \<^verbatim>\<open>"ACTIONS:"\<close>, and
  the model returns the text uncut there.
\<close>

function py_split :: "'a list \<Rightarrow> 'a list \<Rightarrow> 'a list list" where
  "py_split sep s =
     (case find_sub sep s of
        None \<Rightarrow> [s]
      | Some i \<Rightarrow>
          if sep = [] then [s]
          else take i s # py_split sep (drop (i + length sep) s))"
  by pat_completeness auto
termination
proof (relation "measure (\<lambda>(sep, s). length s)")
  show "wf (measure (\<lambda>(sep :: 'a list, s :: 'a list). length s))"
    by simp
next
  fix sep s :: "'a list" and i :: nat
  assume "find_sub sep s = Some i" and "sep \<noteq> []"
  then have "s \<noteq> []"
    by (cases s) auto
  then show "((sep, drop (i + length sep) s), (sep, s)) \<in> measure (\<lambda>(sep, s). length s)"
    using \<open>sep \<noteq> []\<close> by (cases s) auto
qed

declare py_split.simps [simp del]

text \<open>
  \<^verbatim>\<open>s.replace(old, new)\<close> replaces every occurrence of \<open>old\<close>, found from left to
  right without overlap. With an empty \<open>old\<close> Python puts \<open>new\<close> before every character
  and at the end.
\<close>

function py_replace :: "'a list \<Rightarrow> 'a list \<Rightarrow> 'a list \<Rightarrow> 'a list" where
  "py_replace old new s =
     (if old = [] then new @ concat (map (\<lambda>c. c # new) s)
      else case find_sub old s of
        None \<Rightarrow> s
      | Some i \<Rightarrow> take i s @ new @ py_replace old new (drop (i + length old) s))"
  by pat_completeness auto
termination
proof (relation "measure (\<lambda>(old, new, s). length s)")
  show "wf (measure (\<lambda>(old :: 'a list, new :: 'a list, s :: 'a list). length s))"
    by simp
next
  fix old new s :: "'a list" and i :: nat
  assume "old \<noteq> []" and "find_sub old s = Some i"
  then have "s \<noteq> []"
    by (cases s) auto
  then show "((old, new, drop (i + length old) s), (old, new, s))
      \<in> measure (\<lambda>(old, new, s). length s)"
    using \<open>old \<noteq> []\<close> by (cases s) auto
qed

declare py_replace.simps [simp del]

text \<open>
  \<^verbatim>\<open>s.strip()\<close> removes leading and trailing white space. \<open>py_isspace\<close> lists the
  code points for which \<^verbatim>\<open>str.isspace\<close> holds: tab to carriage return, the four
  separators U+001C to U+001F, the space, NEL, the no-break space and the Unicode
  spaces beyond Latin-1.
\<close>

definition py_isspace :: "nat \<Rightarrow> bool" where
  "py_isspace c =
     ((9 \<le> c \<and> c \<le> 13) \<or> (28 \<le> c \<and> c \<le> 32) \<or> c = 133 \<or> c = 160 \<or> c = 5760
      \<or> (8192 \<le> c \<and> c \<le> 8202) \<or> c = 8232 \<or> c = 8233 \<or> c = 8239 \<or> c = 8287
      \<or> c = 12288)"

definition py_strip :: "pystr \<Rightarrow> pystr" where
  "py_strip s = rev (dropWhile py_isspace (rev (dropWhile py_isspace s)))"

text \<open>\<^verbatim>\<open>str(n)\<close> of an integer, which is also what an f-string writes for it.\<close>

fun str_nat :: "nat \<Rightarrow> pystr" where
  "str_nat n = (if n < 10 then [48 + n] else str_nat (n div 10) @ [48 + n mod 10])"

declare str_nat.simps [simp del]

definition str_int :: "int \<Rightarrow> pystr" where
  "str_int i = (if i < 0 then 45 # str_nat (nat (- i)) else str_nat (nat i))"

text \<open>
  The exceptions that can leave the modelled code: the program's own \<^verbatim>\<open>LLMError\<close> with
  its message, the interpreter's errors on a value of the wrong type or a missing item,
  and \<open>External\<close> for whatever a collaborator raises (the network, the JSON decoder) and
  the program does not catch.
\<close>

datatype exn =
    LLMError pystr
  | TypeError
  | AttributeError
  | KeyError
  | IndexError
  | External pystr

text \<open>\<^verbatim>\<open>xs[i]\<close> for a literal index \<open>i \<ge> 0\<close>: an IndexError past the end.\<close>

definition py_index :: "'a list \<Rightarrow> nat \<Rightarrow> exn + 'a" where
  "py_index xs i = (if i < length xs then Inr (xs ! i) else Inl IndexError)"

section \<open>Values decoded from JSON and the interpreter's collaborators\<close>

text \<open>
  What \<^verbatim>\<open>json.loads\<close> and \<^verbatim>\<open>resp.json()\<close> return: \<^verbatim>\<open>None\<close>, a bool, an int, a float,
  a str, a list or a dict. A dict keeps its keys in insertion order, each key once, so it
  is an association list; floats stay opaque.
\<close>

typedecl pyfloat

datatype json =
    JNull
  | JBool bool
  | JInt int
  | JFloat pyfloat
  | JString pystr
  | JArray "json list"
  | JObject "(pystr \<times> json) list"

text \<open>
  The outcome of \<^verbatim>\<open>json.loads(text)\<close>: the decoded value, a \<^verbatim>\<open>JSONDecodeError\<close> with
  its message (what \<^verbatim>\<open>str(e)\<close> gives), or any other exception raised inside the
  decoder. The decoder is the standard library's and is a parameter of the model.
\<close>

datatype decoded =
    Decoded json
  | JSONDecodeError pystr
  | DecodeRaised pystr

text \<open>
  \<^verbatim>\<open>str(v)\<close> of a decoded value. A str is returned as it is; \<^verbatim>\<open>None\<close>, the bools and the
  ints have their fixed spelling; the rendering of a float, a list or a dict is the
  interpreter's and is the parameter \<open>rp\<close>.
\<close>

fun py_str :: "(json \<Rightarrow> pystr) \<Rightarrow> json \<Rightarrow> pystr" where
  "py_str rp (JString s) = s"
| "py_str rp JNull = S ''None''"
| "py_str rp (JBool b) = (if b then S ''True'' else S ''False'')"
| "py_str rp (JInt n) = str_int n"
| "py_str rp v = rp v"

text \<open>\<^verbatim>\<open>d.get(key, default)\<close> on a dict.\<close>

definition py_get :: "(pystr \<times> json) list \<Rightarrow> pystr \<Rightarrow> json \<Rightarrow> json" where
  "py_get d key dflt = (case map_of d key of None \<Rightarrow> dflt | Some v \<Rightarrow> v)"

text \<open>
  \<^verbatim>\<open>key in x\<close> for a str \<open>key\<close>: a key of a dict, an element of a list, a substring
  of a str; a TypeError on anything that is not a container.
\<close>

fun py_in :: "pystr \<Rightarrow> json \<Rightarrow> exn + bool" where
  "py_in key (JObject d) = Inr (map_of d key \<noteq> None)"
| "py_in key (JArray xs) = Inr (JString key \<in> set xs)"
| "py_in key (JString s) = Inr (sublist key s)"
| "py_in key v = Inl TypeError"

text \<open>
  \<^verbatim>\<open>x[key]\<close> for a str \<open>key\<close>: the value of a dict (a KeyError when the key is
  missing); a TypeError on a list or a str, whose indices are integers, and on a value
  that has no items.
\<close>

fun py_getitem :: "json \<Rightarrow> pystr \<Rightarrow> exn + json" where
  "py_getitem (JObject d) key =
     (case map_of d key of None \<Rightarrow> Inl KeyError | Some v \<Rightarrow> Inr v)"
| "py_getitem v key = Inl TypeError"

text \<open>
  The HTTP exchange of \<^verbatim>\<open>call_llm\<close>: the request that \<^verbatim>\<open>requests.post\<close> is given, and
  of the response the three things the program reads. The float literal \<^verbatim>\<open>0.4\<close> of the
  payload is kept as its source text.
\<close>

record http_request =
  req_url :: pystr
  req_headers :: "(pystr \<times> pystr) list"
  req_inputs :: pystr
  req_max_new_tokens :: int
  req_temperature :: pystr
  req_timeout :: int

record http_response =
  status_code :: int
  resp_text :: pystr
  resp_json :: "exn + json"

text \<open>
  What the program takes from outside: the environment variable (\<^verbatim>\<open>os.getenv\<close> gives
  \<^verbatim>\<open>None\<close> or a str), the network (\<^verbatim>\<open>requests.post\<close> returns a response or raises), the
  JSON decoder and the interpreter's rendering of containers and floats.
\<close>

record env =
  HF_API_TOKEN :: "pystr option"
  requests_post :: "http_request \<Rightarrow> exn + http_response"
  json_loads :: "pystr \<Rightarrow> decoded"
  py_repr :: "json \<Rightarrow> pystr"

section \<open>Task\_2/llm.py\<close>

definition HF_MODEL :: pystr where
  "HF_MODEL = S ''mistralai/Mistral-7B-Instruct-v0.3''"

definition API_URL :: pystr where
  "API_URL = S ''https://api-inference.huggingface.co/models/'' @ HF_MODEL"

text \<open>\<^verbatim>\<open>if HF_API_TOKEN\<close>: \<^verbatim>\<open>None\<close> and the empty str are false.\<close>

definition token_set :: "pystr option \<Rightarrow> bool" where
  "token_set tok = (case tok of None \<Rightarrow> False | Some t \<Rightarrow> t \<noteq> [])"

definition HEADERS :: "pystr option \<Rightarrow> (pystr \<times> pystr) list" where
  "HEADERS tok =
     (if token_set tok then [(S ''Authorization'', S ''Bearer '' @ the tok)] else [])"

text \<open>
  Lines 38 to 45 of \<^verbatim>\<open>call_llm\<close>: the text of the decoded response \<open>data\<close>. The
  conditions are evaluated in the source's order, \<^verbatim>\<open>and\<close> stopping at the first false
  one; an exception raised by \<^verbatim>\<open>in\<close> or by the subscript leaves the function.
\<close>

definition call_llm_result :: "(json \<Rightarrow> pystr) \<Rightarrow> json \<Rightarrow> exn + json" where
  "call_llm_result rp data =
     (case data of
        JArray xs \<Rightarrow>
          (case xs of
             [] \<Rightarrow> Inr (JString (py_str rp data))
           | x # _ \<Rightarrow>
               (case py_in (S ''generated_text'') x of
                  Inl e \<Rightarrow> Inl e
                | Inr True \<Rightarrow> py_getitem x (S ''generated_text'')
                | Inr False \<Rightarrow> Inr (JString (py_str rp data))))
      | JObject d \<Rightarrow>
          (case py_in (S ''generated_text'') data of
             Inl e \<Rightarrow> Inl e
           | Inr True \<Rightarrow> py_getitem data (S ''generated_text'')
           | Inr False \<Rightarrow> Inr (JString (py_str rp data)))
      | _ \<Rightarrow> Inr (JString (py_str rp data)))"

text \<open>
  \<^verbatim>\<open>call_llm\<close>. The result comes with the list of requests sent, so that a failure
  before the network call shows as an empty list. The function is annotated to return a
  str but returns whatever \<^verbatim>\<open>generated_text\<close> holds, hence a decoded value.
\<close>

definition call_llm :: "env \<Rightarrow> pystr \<Rightarrow> int \<Rightarrow> http_request list \<times> (exn + json)" where
  "call_llm e prompt max_new_tokens =
     (if \<not> token_set (HF_API_TOKEN e)
      then ([], Inl (LLMError (S ''HF_API_TOKEN is not set in environment variables.'')))
      else
        (let req = \<lparr> req_url = API_URL,
                      req_headers = HEADERS (HF_API_TOKEN e),
                      req_inputs = prompt,
                      req_max_new_tokens = max_new_tokens,
                      req_temperature = S ''0.4'',
                      req_timeout = 60 \<rparr>
         in case requests_post e req of
              Inl x \<Rightarrow> ([req], Inl x)
            | Inr resp \<Rightarrow>
                if status_code resp \<noteq> 200
                then ([req], Inl (LLMError (S ''HF API error: '' @ str_int (status_code resp)
                                             @ S '' - '' @ resp_text resp)))
                else (case resp_json resp of
                        Inl x \<Rightarrow> ([req], Inl x)
                      | Inr data \<Rightarrow> ([req], call_llm_result (py_repr e) data))))"

text \<open>
  \<^verbatim>\<open>build_prompt\<close>. \<open>prompt_intro\<close> holds the lines of the template above the rating,
  each of which ends in a newline; in the f-string a doubled brace stands for one brace.
  The line of the review ends in a space.
\<close>

definition prompt_intro :: "pystr list" where
  \<open>prompt_intro =
     [S ''You are an AI assistant helping a business understand customer feedback.'',
      [],
      S ''You will receive:'',
      S ''- A star rating (1 to 5)'',
      S ''- A short free-text review'',
      [],
      S ''Your tasks:'',
      S ''1. Write a short, warm, user-facing reply directly to the customer.'',
      S ''2. Summarise the essence of the review in <= 20 words.'',
      S ''3. Suggest 2'' @ [8211] @ S ''3 concrete next actions for the business.'',
      [],
      S ''Return ONLY a valid JSON object with these exact keys:'',
      S ''- "user_response": string'',
      S ''- "summary": string'',
      S ''- "actions": array of strings'',
      [],
      S ''Example of the required format:'',
      S ''{'',
      S ''  "user_response": "Thank you for your feedback...",'',
      S ''  "summary": "Customer loved the food but found service slow.",'',
      S ''  "actions": ['',
      S ''    "Train staff to reduce wait time",'',
      S ''    "Monitor peak hours and add staff"'',
      S ''  ]'',
      S ''}'',
      [],
      S ''Now generate the JSON.'',
      []]\<close>

definition build_prompt :: "int \<Rightarrow> pystr \<Rightarrow> pystr" where
  \<open>build_prompt rating review =
     py_strip
       ([10] @ concat (map (\<lambda>l. l @ [10]) prompt_intro)
        @ S ''Rating: '' @ str_int rating @ [10]
        @ S ''Review: """'' @ review @ S ''""" '' @ [10]
        @ [10]
        @ S ''JSON:'' @ [10])\<close>

text \<open>
  \<^verbatim>\<open>parse_llm_json\<close>. Only \<^verbatim>\<open>JSONDecodeError\<close> is caught; both failures are raised
  as \<^verbatim>\<open>LLMError\<close> and differ in the message.
\<close>

definition parse_llm_json :: "(pystr \<Rightarrow> decoded) \<Rightarrow> pystr \<Rightarrow> exn + json" where
  "parse_llm_json loads raw_text =
     (let start = py_find (S ''{'') raw_text;
          end_pos = py_rfind (S ''}'') raw_text
      in if start = - 1 \<or> end_pos = - 1 \<or> end_pos \<le> start
         then Inl (LLMError (S ''No JSON object found in LLM output.''))
         else
           (let json_str = py_slice raw_text start (end_pos + 1)
            in case loads json_str of
                 Decoded obj \<Rightarrow> Inr obj
               | JSONDecodeError msg \<Rightarrow> Inl (LLMError (S ''Failed to parse JSON: '' @ msg))
               | DecodeRaised x \<Rightarrow> Inl (External x)))"

text \<open>
  The result of \<^verbatim>\<open>generate_feedback\<close>. \<^verbatim>\<open>user_response\<close> and \<^verbatim>\<open>summary\<close> are whatever
  the decoded object holds under these keys, so their type is that of a decoded value.
\<close>

record feedback =
  user_response :: json
  summary :: json
  actions :: "json list"

text \<open>
  Lines 117 to 128 of \<^verbatim>\<open>generate_feedback\<close>: the defaults and the coercion of
  \<^verbatim>\<open>actions\<close>, on the value \<open>data\<close> that \<^verbatim>\<open>parse_llm_json\<close> returned. \<^verbatim>\<open>data.get\<close> exists
  on a dict only.
\<close>

definition normalize_feedback :: "(json \<Rightarrow> pystr) \<Rightarrow> json \<Rightarrow> exn + feedback" where
  "normalize_feedback rp data =
     (case data of
        JObject d \<Rightarrow>
          (let ur = py_get d (S ''user_response'') (JString (S ''Thank you for your feedback!''));
               sm = py_get d (S ''summary'') (JString (S ''Customer left feedback.''));
               ac = py_get d (S ''actions'') (JArray [])
           in Inr \<lparr> user_response = ur,
                    summary = sm,
                    actions = (case ac of JArray xs \<Rightarrow> xs | _ \<Rightarrow> [JString (py_str rp ac)]) \<rparr>)
      | _ \<Rightarrow> Inl AttributeError)"

text \<open>
  Lines 115 to 128 of \<^verbatim>\<open>generate_feedback\<close>: from the raw output of the model to the
  result (the strict-mode pipeline, \<^verbatim>\<open>parse_and_normalize\<close> in the specification).
\<close>

definition parse_and_normalize ::
  "(pystr \<Rightarrow> decoded) \<Rightarrow> (json \<Rightarrow> pystr) \<Rightarrow> pystr \<Rightarrow> exn + feedback" where
  "parse_and_normalize loads rp raw_output =
     (case parse_llm_json loads raw_output of
        Inl x \<Rightarrow> Inl x
      | Inr data \<Rightarrow> normalize_feedback rp data)"

text \<open>
  \<^verbatim>\<open>generate_feedback\<close>. What \<^verbatim>\<open>call_llm\<close> returned has a \<^verbatim>\<open>find\<close> method only when it
  is a str.
\<close>

definition generate_feedback ::
  "env \<Rightarrow> int \<Rightarrow> pystr \<Rightarrow> http_request list \<times> (exn + feedback)" where
  "generate_feedback e rating review =
     (let prompt = build_prompt rating review
      in case call_llm e prompt 256 of
           (sent, Inl x) \<Rightarrow> (sent, Inl x)
         | (sent, Inr (JString raw_output)) \<Rightarrow>
             (sent, parse_and_normalize (json_loads e) (py_repr e) raw_output)
         | (sent, Inr _) \<Rightarrow> (sent, Inl AttributeError))"

section \<open>app.py\<close>

text \<open>
  Lines 89 to 93 of \<^verbatim>\<open>analyze_feedback\<close>: the summary and the actions read from the
  completion \<open>analysis\<close> of the model (the section-header mode, \<^verbatim>\<open>parse_sections\<close> in
  the specification).
\<close>

definition parse_sections :: "pystr \<Rightarrow> exn + pystr \<times> pystr" where
  "parse_sections analysis =
     (let parts = py_split (S ''ACTIONS:'') analysis
      in case py_index parts 0 of
           Inl x \<Rightarrow> Inl x
         | Inr p0 \<Rightarrow>
             (let sm = py_strip (py_replace (S ''SUMMARY:'') [] p0)
              in if length parts > 1
                 then (case py_index parts 1 of
                         Inl x \<Rightarrow> Inl x
                       | Inr p1 \<Rightarrow> Inr (sm, py_strip p1))
                 else Inr (sm, S ''Could not parse actions.'')))"

section \<open>Notions used to state the properties\<close>

text \<open>
  The four failures that the specification names are all raised as \<^verbatim>\<open>LLMError\<close>; they
  are told apart by the message.
\<close>

abbreviation NoJsonFound :: exn where
  "NoJsonFound \<equiv> LLMError (S ''No JSON object found in LLM output.'')"

abbreviation MalformedJson :: "pystr \<Rightarrow> exn" where
  "MalformedJson msg \<equiv> LLMError (S ''Failed to parse JSON: '' @ msg)"

abbreviation AuthenticationMissing :: exn where
  "AuthenticationMissing \<equiv> LLMError (S ''HF_API_TOKEN is not set in environment variables.'')"

abbreviation ServiceError :: "int \<Rightarrow> pystr \<Rightarrow> exn" where
  "ServiceError status body \<equiv>
     LLMError (S ''HF API error: '' @ str_int status @ S '' - '' @ body)"

abbreviation lbrace :: nat where
  "lbrace \<equiv> of_char CHR ''{''"

abbreviation rbrace :: nat where
  "rbrace \<equiv> of_char CHR ''}''"

text \<open>
  The position of the first and of the last occurrence of a character in a text that
  contains it, and the text from the first opening brace through the last closing one.
  These follow the wording of the specification and are related to \<open>py_find\<close>,
  \<open>py_rfind\<close> and \<open>py_slice\<close> below.
\<close>

definition first_index :: "'a \<Rightarrow> 'a list \<Rightarrow> nat" where
  "first_index c s = length (takeWhile (\<lambda>x. x \<noteq> c) s)"

definition last_index :: "'a \<Rightarrow> 'a list \<Rightarrow> nat" where
  "last_index c s = length s - Suc (first_index c (rev s))"

definition brace_span :: "pystr \<Rightarrow> pystr" where
  "brace_span raw =
     take (Suc (last_index rbrace raw - first_index lbrace raw))
       (drop (first_index lbrace raw) raw)"

text \<open>
  A marker is unbordered when none of its proper suffixes is one of its prefixes, so
  that two occurrences of it never overlap. Both markers of the section-header mode are.
\<close>

definition unbordered :: "'a list \<Rightarrow> bool" where
  "unbordered m = (m \<noteq> [] \<and> list_all (\<lambda>k. \<not> prefix (drop k m) m) [1..<length m])"

text \<open>\<^verbatim>\<open>sep.join(parts)\<close>, to write a text with its markers in place.\<close>

fun py_join :: "'a list \<Rightarrow> 'a list list \<Rightarrow> 'a list" where
  "py_join sep [] = []"
| "py_join sep [p] = p"
| "py_join sep (p # q # ps) = p @ sep @ py_join sep (q # ps)"

text \<open>
  A scripted decoder for the examples: it answers the listed texts as
  \<^verbatim>\<open>json.loads\<close> does and is not asked about any other.
\<close>

definition scripted_loads :: "(pystr \<times> decoded) list \<Rightarrow> pystr \<Rightarrow> decoded" where
  "scripted_loads script s =
     (case map_of script s of
        Some r \<Rightarrow> r
      | None \<Rightarrow> DecodeRaised (S ''not scripted''))"

definition demo_object :: pystr where
  \<open>demo_object = S ''{"user_response": "Thanks!", "summary": "ok", "actions": ["a"]}''\<close>

definition demo_value :: json where
  "demo_value =
     JObject [(S ''user_response'', JString (S ''Thanks!'')),
              (S ''summary'', JString (S ''ok'')),
              (S ''actions'', JArray [JString (S ''a'')])]"

text \<open>
  After the object, \<^verbatim>\<open>json.loads\<close> skips the space and stops at the colon, character
  64 of the text.
\<close>

definition demo_loads :: "pystr \<Rightarrow> decoded" where
  "demo_loads =
     scripted_loads
       [(demo_object, Decoded demo_value),
        (demo_object @ S '' :-}'', JSONDecodeError (S ''Extra data: line 1 column 65 (char 64)''))]"

text \<open>
  An environment with a credential whose provider answers every request with status 200
  and the JSON body \<^verbatim>\<open>[5]\<close>.
\<close>

definition demo_env :: env where
  "demo_env =
     \<lparr> HF_API_TOKEN = Some (S ''hf_secret''),
       requests_post =
         (\<lambda>req. Inr \<lparr> status_code = 200, resp_text = S ''[5]'',
                       resp_json = Inr (JArray [JInt 5]) \<rparr>),
       json_loads = scripted_loads [],
       py_repr = (\<lambda>v. S ''[5]'') \<rparr>"

section \<open>Searching a text\<close>

lemma find_sub_None_iff: "find_sub sub s = None \<longleftrightarrow> \<not> sublist sub s"
  by (induction s) (auto simp: sublist_Cons_right)

lemma find_sub_single:
  "find_sub [c] s = (if c \<in> set s then Some (first_index c s) else None)"
  by (induction s) (auto simp: first_index_def)

lemma first_index_less: "c \<in> set s \<Longrightarrow> first_index c s < length s"
  by (induction s) (auto simp: first_index_def)

lemma last_index_less: "c \<in> set s \<Longrightarrow> last_index c s < length s"
  using first_index_less[of c "rev s"] by (simp add: last_index_def)

lemma rfind_sub_single:
  "rfind_sub [c] s = (if c \<in> set s then Some (last_index c s) else None)"
  by (simp add: rfind_sub_def find_sub_single last_index_def)

lemma py_find_single:
  "py_find [c] s = (if c \<in> set s then int (first_index c s) else - 1)"
  by (simp add: py_find_def find_sub_single)

lemma py_rfind_single:
  "py_rfind [c] s = (if c \<in> set s then int (last_index c s) else - 1)"
  by (simp add: py_rfind_def rfind_sub_single)

lemma first_index_append:
  "c \<notin> set pre \<Longrightarrow> first_index c (pre @ c # r) = length pre"
  by (induction pre) (auto simp: first_index_def)

lemma last_index_append:
  "c \<notin> set post \<Longrightarrow> last_index c (a @ c # post) = length a"
  using first_index_append[of c "rev post" "rev a"] by (simp add: last_index_def)

lemma py_slice_nat:
  "i \<le> j \<Longrightarrow> j \<le> length s \<Longrightarrow> py_slice s (int i) (int j) = take (j - i) (drop i s)"
  by (simp add: py_slice_def Let_def nat_diff_distrib' min_def)

text \<open>
  An occurrence of an unbordered marker cannot begin inside the text before another
  occurrence and run into it, so a marker that follows a text free of it is the first.
\<close>

lemma unbordered_no_straddle:
  assumes "unbordered m" "\<not> prefix m p" "p \<noteq> []"
  shows "\<not> prefix m (p @ m @ r)"
proof
  assume "prefix m (p @ m @ r)"
  then have "prefix m p \<or> (\<exists>us. m = p @ us \<and> prefix us (m @ r))"
    by (rule prefix_append[THEN iffD1])
  with assms(2) obtain us where us: "m = p @ us" "prefix us (m @ r)"
    by blast
  have ne: "us \<noteq> []"
    using us(1) assms(2) by auto
  have total: "length m = length p + length us"
    using arg_cong[OF us(1), of length] by simp
  have len: "length us < length m"
    using total assms(3) by simp
  from us(2) have "prefix us m \<or> (\<exists>vs. us = m @ vs \<and> prefix vs r)"
    by (rule prefix_append[THEN iffD1])
  with len have "prefix us m"
    by auto
  moreover have "us = drop (length p) m"
    using arg_cong[OF us(1), of "drop (length p)"] by simp
  moreover have "length p \<in> set [1..<length m]"
  proof -
    have "1 \<le> length us"
      using ne by (cases us) auto
    moreover have "1 \<le> length p"
      using assms(3) by (cases p) auto
    ultimately show ?thesis
      using total by (simp del: length_greater_0_conv)
  qed
  ultimately show False
    using assms(1) unfolding unbordered_def list_all_iff by blast
qed

lemma find_sub_first:
  assumes "unbordered m" "\<not> sublist m pre"
  shows "find_sub m (pre @ m @ rest) = Some (length pre)"
  using assms(2)
proof (induction pre)
  case Nil
  have "m \<noteq> []"
    using assms(1) by (simp add: unbordered_def)
  then show ?case
    by (cases m) auto
next
  case (Cons a p)
  then have np: "\<not> prefix m (a # p)" and ns: "\<not> sublist m p"
    by (auto simp: sublist_Cons_right)
  have "\<not> prefix m ((a # p) @ m @ rest)"
    using unbordered_no_straddle[OF assms(1) np] by blast
  then show ?case
    using Cons.IH[OF ns] by simp
qed

text \<open>What \<open>find_sub\<close> returns is an occurrence, and the first one.\<close>

lemma find_sub_SomeD:
  "find_sub sub s = Some i \<Longrightarrow>
     prefix sub (drop i s) \<and> i \<le> length s \<and> (\<forall>j<i. \<not> prefix sub (drop j s))"
proof (induction s arbitrary: i)
  case Nil
  then show ?case
    by (auto split: if_splits)
next
  case (Cons c s)
  show ?case
  proof (cases "prefix sub (c # s)")
    case True
    with Cons.prems show ?thesis
      by simp
  next
    case False
    with Cons.prems obtain k where k: "find_sub sub s = Some k" "i = Suc k"
      by auto
    from Cons.IH[OF k(1)] have ih: "prefix sub (drop k s)" "k \<le> length s"
      "\<forall>j<k. \<not> prefix sub (drop j s)"
      by auto
    have "\<not> prefix sub (drop j (c # s))" if "j < i" for j
      using that False ih(3) k(2) by (cases j) auto
    then show ?thesis
      using ih k(2) by simp
  qed
qed

lemma find_sub_before:
  assumes "find_sub sep s = Some i" "sep \<noteq> []"
  shows "\<not> sublist sep (take i s)"
proof
  assume "sublist sep (take i s)"
  then obtain ps ss where d: "take i s = ps @ sep @ ss"
    by (auto simp: sublist_def)
  have "length (take i s) = i"
    using find_sub_SomeD[OF assms(1)] by simp
  then have "length ps + length sep + length ss = i"
    using arg_cong[OF d, of length] by simp
  moreover have "1 \<le> length sep"
    using assms(2) by (cases sep) auto
  ultimately have lt: "length ps < i"
    by linarith
  have "s = ps @ sep @ ss @ drop i s"
    using append_take_drop_id[of i s] d by (metis append.assoc)
  then have "drop (length ps) s = sep @ ss @ drop i s"
    by (metis append_eq_conv_conj)
  then have "prefix sep (drop (length ps) s)"
    by simp
  with lt show False
    using find_sub_SomeD[OF assms(1)] by blast
qed

section \<open>The strict-mode pipeline\<close>

text \<open>
  \<^verbatim>\<open>parse_llm_json\<close> in terms of the first opening and the last closing brace: the three
  tests of the source are the three ways in which no span exists, and the slice is the
  span between the two braces.
\<close>

lemma brace_span_numeral:
  "brace_span raw =
     take (Suc (last_index 125 raw - first_index 123 raw)) (drop (first_index 123 raw) raw)"
  by (simp add: brace_span_def)

lemma parse_llm_json_cases:
  "parse_llm_json loads raw =
     (if lbrace \<notin> set raw \<or> rbrace \<notin> set raw \<or> last_index rbrace raw \<le> first_index lbrace raw
      then Inl NoJsonFound
      else (case loads (brace_span raw) of
              Decoded obj \<Rightarrow> Inr obj
            | JSONDecodeError msg \<Rightarrow> Inl (MalformedJson msg)
            | DecodeRaised x \<Rightarrow> Inl (External x)))"
proof (cases "123 \<notin> set raw \<or> 125 \<notin> set raw \<or> last_index 125 raw \<le> first_index 123 raw")
  case True
  then show ?thesis
    by (auto simp: parse_llm_json_def py_find_single py_rfind_single Let_def)
next
  case False
  then have m: "123 \<in> set raw" "125 \<in> set raw"
    and lt: "first_index 123 raw < last_index 125 raw"
    by auto
  have le: "Suc (last_index 125 raw) \<le> length raw"
    using last_index_less[OF m(2)] by simp
  have "py_slice raw (int (first_index 123 raw)) (int (last_index 125 raw) + 1) = brace_span raw"
    using py_slice_nat[of "first_index 123 raw" "Suc (last_index 125 raw)" raw] lt le
    by (simp add: brace_span_numeral Suc_diff_le add.commute)
  then show ?thesis
    using m lt by (simp add: parse_llm_json_def py_find_single py_rfind_single Let_def)
qed

lemma brace_span_embedded:
  assumes "lbrace \<notin> set pre" "rbrace \<notin> set post"
  shows "first_index lbrace (pre @ lbrace # mid @ rbrace # post) = length pre"
    and "last_index rbrace (pre @ lbrace # mid @ rbrace # post) = Suc (length pre + length mid)"
    and "brace_span (pre @ lbrace # mid @ rbrace # post) = lbrace # mid @ [rbrace]"
proof -
  show f: "first_index lbrace (pre @ lbrace # mid @ rbrace # post) = length pre"
    using assms(1) by (rule first_index_append)
  show l: "last_index rbrace (pre @ lbrace # mid @ rbrace # post) = Suc (length pre + length mid)"
    using last_index_append[OF assms(2), of "pre @ lbrace # mid"] by simp
  show "brace_span (pre @ lbrace # mid @ rbrace # post) = lbrace # mid @ [rbrace]"
    unfolding brace_span_def f l by simp
qed

lemma parse_llm_json_embedded:
  assumes "lbrace \<notin> set pre" "rbrace \<notin> set post"
  shows "parse_llm_json loads (pre @ lbrace # mid @ rbrace # post) =
     (case loads (lbrace # mid @ [rbrace]) of
        Decoded obj \<Rightarrow> Inr obj
      | JSONDecodeError msg \<Rightarrow> Inl (MalformedJson msg)
      | DecodeRaised x \<Rightarrow> Inl (External x))"
  using brace_span_embedded[OF assms, of mid]
  by (simp add: parse_llm_json_cases)

lemma normalize_feedback_object:
  "normalize_feedback rp (JObject d) =
     Inr \<lparr> user_response =
             py_get d (S ''user_response'') (JString (S ''Thank you for your feedback!'')),
           summary = py_get d (S ''summary'') (JString (S ''Customer left feedback.'')),
           actions = (case py_get d (S ''actions'') (JArray []) of
                        JArray xs \<Rightarrow> xs
                      | v \<Rightarrow> [JString (py_str rp v)]) \<rparr>"
  by (simp add: normalize_feedback_def Let_def split: json.split)

lemma generate_feedback_pipeline:
  "call_llm e (build_prompt rating review) 256 = (sent, Inr (JString raw_output)) \<Longrightarrow>
     generate_feedback e rating review =
       (sent, parse_and_normalize (json_loads e) (py_repr e) raw_output)"
  by (simp add: generate_feedback_def)

text \<open>
  C1, as amended. For every text that the decoder reads as an object holding a string
  under \<^verbatim>\<open>user_response\<close>, a string under \<^verbatim>\<open>summary\<close> and a list of strings under
  \<^verbatim>\<open>actions\<close>, embedded in prose with no opening brace before it and no closing brace
  after it, the strict-mode pipeline returns exactly these three values.
\<close>

theorem parse_and_normalize_recovers:
  assumes "lbrace \<notin> set pre" and "rbrace \<notin> set post"
    and "loads (lbrace # mid @ [rbrace]) = Decoded (JObject d)"
    and "map_of d (S ''user_response'') = Some (JString u)"
    and "map_of d (S ''summary'') = Some (JString s)"
    and "map_of d (S ''actions'') = Some (JArray (map JString acts))"
  shows "parse_and_normalize loads rp (pre @ lbrace # mid @ [rbrace] @ post) =
           Inr \<lparr> user_response = JString u, summary = JString s, actions = map JString acts \<rparr>"
proof -
  have "parse_llm_json loads (pre @ lbrace # mid @ rbrace # post) = Inr (JObject d)"
    using parse_llm_json_embedded[OF assms(1,2), of loads mid] assms(3) by simp
  then show ?thesis
    using assms(4-6) by (simp add: parse_and_normalize_def normalize_feedback_object py_get_def)
qed

theorem parse_and_normalize_recovers_witness:
  \<open>parse_and_normalize demo_loads (\<lambda>v. [])
      (S ''Sure, here it is: {"user_response": "Thanks!", "summary": "ok", "actions": ["a"]} Bye.'') =
    Inr \<lparr> user_response = JString (S ''Thanks!''), summary = JString (S ''ok''),
          actions = [JString (S ''a'')] \<rparr>\<close>
  using parse_and_normalize_recovers[of "S ''Sure, here it is: ''" "S '' Bye.''" demo_loads
      \<open>S ''"user_response": "Thanks!", "summary": "ok", "actions": ["a"]''\<close>
      "[(S ''user_response'', JString (S ''Thanks!'')),
        (S ''summary'', JString (S ''ok'')),
        (S ''actions'', JArray [JString (S ''a'')])]"
      "S ''Thanks!''" "S ''ok''" "[S ''a'']" "\<lambda>v. []"]
  by (simp add: demo_loads_def scripted_loads_def demo_object_def demo_value_def)

text \<open>
  C1 as stated fails: the span runs from the first opening brace of the whole text to its
  last closing brace. Here the prose after a well-formed object contains a closing
  brace, the decoder is given the object together with that prose, and the pipeline fails.
\<close>

theorem greedy_span_counterexample:
  \<open>demo_loads demo_object = Decoded demo_value
   \<and> parse_and_normalize demo_loads (\<lambda>v. []) (S ''Here: '' @ demo_object @ S '' :-}'') =
      Inl (MalformedJson (S ''Extra data: line 1 column 65 (char 64)''))\<close>
  by (simp add: parse_and_normalize_def parse_llm_json_cases brace_span_def first_index_def
      last_index_def demo_loads_def scripted_loads_def demo_object_def)

text \<open>
  C2. The result of a successful run need not have fields of the declared types: a value
  found under \<^verbatim>\<open>user_response\<close> or \<^verbatim>\<open>summary\<close> is returned as it is, and so are the
  elements of a list found under \<^verbatim>\<open>actions\<close>. For the output
  \<^verbatim>\<open>{"user_response": 5, "summary": null, "actions": [1, 2]}\<close> the result holds an
  integer, \<^verbatim>\<open>None\<close> and a list of integers.
\<close>

theorem mistyped_fields_pass_through:
  \<open>parse_and_normalize
     (scripted_loads [(S ''{"user_response": 5, "summary": null, "actions": [1, 2]}'',
        Decoded (JObject [(S ''user_response'', JInt 5), (S ''summary'', JNull),
                          (S ''actions'', JArray [JInt 1, JInt 2])]))])
     (\<lambda>v. []) (S ''{"user_response": 5, "summary": null, "actions": [1, 2]}'') =
     Inr \<lparr> user_response = JInt 5, summary = JNull, actions = [JInt 1, JInt 2] \<rparr>\<close>
  by (simp add: parse_and_normalize_def parse_llm_json_cases brace_span_def first_index_def
      last_index_def scripted_loads_def normalize_feedback_object py_get_def)

text \<open>
  C3. When \<^verbatim>\<open>parse_llm_json\<close> returned a mapping, the pipeline succeeds, and in its
  result \<^verbatim>\<open>user_response\<close> is \<^verbatim>\<open>"Thank you for your feedback!"\<close> when the key is absent,
  \<^verbatim>\<open>summary\<close> is \<^verbatim>\<open>"Customer left feedback."\<close> when the key is absent, \<^verbatim>\<open>actions\<close> is
  the empty list when the key is absent, and a value under \<^verbatim>\<open>actions\<close> that is not a
  list becomes the one-element list of its \<^verbatim>\<open>str\<close>, a bare string \<open>s\<close> becoming \<open>[s]\<close>.
  A value that is present is otherwise returned as it is.
\<close>

theorem normalize_defaults:
  assumes "parse_llm_json loads raw = Inr (JObject d)"
  shows "\<exists>r. parse_and_normalize loads rp raw = Inr r
    \<and> (map_of d (S ''user_response'') = None
         \<longrightarrow> user_response r = JString (S ''Thank you for your feedback!''))
    \<and> (\<forall>v. map_of d (S ''user_response'') = Some v \<longrightarrow> user_response r = v)
    \<and> (map_of d (S ''summary'') = None \<longrightarrow> summary r = JString (S ''Customer left feedback.''))
    \<and> (\<forall>v. map_of d (S ''summary'') = Some v \<longrightarrow> summary r = v)
    \<and> (map_of d (S ''actions'') = None \<longrightarrow> actions r = [])
    \<and> (\<forall>xs. map_of d (S ''actions'') = Some (JArray xs) \<longrightarrow> actions r = xs)
    \<and> (\<forall>v. map_of d (S ''actions'') = Some v \<longrightarrow> (\<forall>xs. v \<noteq> JArray xs)
         \<longrightarrow> actions r = [JString (py_str rp v)])
    \<and> (\<forall>s. map_of d (S ''actions'') = Some (JString s) \<longrightarrow> actions r = [JString s])"
  using assms
  by (auto simp: parse_and_normalize_def normalize_feedback_object py_get_def split: json.split)

theorem normalize_defaults_witness:
  \<open>parse_and_normalize
     (scripted_loads
        [(S ''{"summary": "ok"}'', Decoded (JObject [(S ''summary'', JString (S ''ok''))]))])
     (\<lambda>v. []) (S ''{"summary": "ok"}'') =
     Inr \<lparr> user_response = JString (S ''Thank you for your feedback!''),
           summary = JString (S ''ok''), actions = [] \<rparr>
   \<and> parse_and_normalize
     (scripted_loads [(S ''{"actions": "retrain staff"}'',
        Decoded (JObject [(S ''actions'', JString (S ''retrain staff''))]))])
     (\<lambda>v. []) (S ''{"actions": "retrain staff"}'') =
     Inr \<lparr> user_response = JString (S ''Thank you for your feedback!''),
           summary = JString (S ''Customer left feedback.''),
           actions = [JString (S ''retrain staff'')] \<rparr>\<close>
proof -
  let ?l1 = \<open>scripted_loads
        [(S ''{"summary": "ok"}'', Decoded (JObject [(S ''summary'', JString (S ''ok''))]))]\<close>
  let ?l2 = \<open>scripted_loads [(S ''{"actions": "retrain staff"}'',
        Decoded (JObject [(S ''actions'', JString (S ''retrain staff''))]))]\<close>
  have h1: \<open>parse_llm_json ?l1 (S ''{"summary": "ok"}'') =
      Inr (JObject [(S ''summary'', JString (S ''ok''))])\<close>
    by (simp add: parse_llm_json_cases brace_span_def first_index_def last_index_def
        scripted_loads_def)
  have h2: \<open>parse_llm_json ?l2 (S ''{"actions": "retrain staff"}'') =
      Inr (JObject [(S ''actions'', JString (S ''retrain staff''))])\<close>
    by (simp add: parse_llm_json_cases brace_span_def first_index_def last_index_def
        scripted_loads_def)
  from normalize_defaults[OF h1, of "\<lambda>v. []"] obtain r1 where r1:
    \<open>parse_and_normalize ?l1 (\<lambda>v. []) (S ''{"summary": "ok"}'') = Inr r1\<close>
    "user_response r1 = JString (S ''Thank you for your feedback!'')"
    "summary r1 = JString (S ''ok'')" "actions r1 = []"
    by auto
  from normalize_defaults[OF h2, of "\<lambda>v. []"] obtain r2 where r2:
    \<open>parse_and_normalize ?l2 (\<lambda>v. []) (S ''{"actions": "retrain staff"}'') = Inr r2\<close>
    "user_response r2 = JString (S ''Thank you for your feedback!'')"
    "summary r2 = JString (S ''Customer left feedback.'')"
    "actions r2 = [JString (S ''retrain staff'')]"
    by auto
  have "r1 = \<lparr> user_response = JString (S ''Thank you for your feedback!''),
           summary = JString (S ''ok''), actions = [] \<rparr>"
    using r1(2-4) by (cases r1) simp
  moreover have "r2 = \<lparr> user_response = JString (S ''Thank you for your feedback!''),
           summary = JString (S ''Customer left feedback.''),
           actions = [JString (S ''retrain staff'')] \<rparr>"
    using r2(2-4) by (cases r2) simp
  ultimately show ?thesis
    using r1(1) r2(1) by simp
qed

text \<open>
  C4. \<^verbatim>\<open>parse_llm_json\<close> fails with \<^verbatim>\<open>NoJsonFound\<close> exactly when the text has no
  opening brace, or has no closing brace, or its last closing brace stands at or before
  its first opening brace; in every other case its outcome is that of the decoder on the
  text from the first opening brace through the last closing brace.
\<close>

theorem parse_llm_json_no_json_found:
  "(parse_llm_json loads raw = Inl NoJsonFound
      \<longleftrightarrow> lbrace \<notin> set raw \<or> rbrace \<notin> set raw
          \<or> last_index rbrace raw \<le> first_index lbrace raw)
   \<and> (\<not> (lbrace \<notin> set raw \<or> rbrace \<notin> set raw
          \<or> last_index rbrace raw \<le> first_index lbrace raw)
      \<longrightarrow> parse_llm_json loads raw =
           (case loads (brace_span raw) of
              Decoded obj \<Rightarrow> Inr obj
            | JSONDecodeError msg \<Rightarrow> Inl (MalformedJson msg)
            | DecodeRaised x \<Rightarrow> Inl (External x)))"
  by (simp add: parse_llm_json_cases split: decoded.split)

theorem parse_llm_json_no_json_found_witness:
  \<open>parse_llm_json (scripted_loads []) (S ''plain text'') = Inl NoJsonFound
   \<and> parse_llm_json (scripted_loads []) (S ''{ only'') = Inl NoJsonFound
   \<and> parse_llm_json (scripted_loads []) (S ''} then {'') = Inl NoJsonFound
   \<and> parse_llm_json
        (scripted_loads [(S ''{"a": 1}'', Decoded (JObject [(S ''a'', JInt 1)]))])
        (S ''so {"a": 1} it is'') = Inr (JObject [(S ''a'', JInt 1)])
   \<and> parse_llm_json
        (scripted_loads [(S ''{not valid json}'', JSONDecodeError
           (S ''Expecting property name enclosed in double quotes: line 1 column 2 (char 1)''))])
        (S ''Sure! {not valid json}'') = Inl (MalformedJson
           (S ''Expecting property name enclosed in double quotes: line 1 column 2 (char 1)''))\<close>
  using parse_llm_json_no_json_found[of "scripted_loads []" "S ''plain text''"]
    parse_llm_json_no_json_found[of "scripted_loads []" "S ''{ only''"]
    parse_llm_json_no_json_found[of "scripted_loads []" "S ''} then {''"]
    parse_llm_json_no_json_found[of
      \<open>scripted_loads [(S ''{"a": 1}'', Decoded (JObject [(S ''a'', JInt 1)]))]\<close>
      \<open>S ''so {"a": 1} it is''\<close>]
    parse_llm_json_no_json_found[of
      \<open>scripted_loads [(S ''{not valid json}'', JSONDecodeError
           (S ''Expecting property name enclosed in double quotes: line 1 column 2 (char 1)''))]\<close>
      \<open>S ''Sure! {not valid json}''\<close>]
  by (simp add: first_index_def last_index_def brace_span_def scripted_loads_def)

text \<open>
  C5, as amended. The text \<^verbatim>\<open>Sure! {not valid json\<close> has no closing brace, so the
  pipeline fails with \<^verbatim>\<open>NoJsonFound\<close>, whatever the decoder is: the decoder is not
  consulted. With a closing brace, \<^verbatim>\<open>Sure! {not valid json}\<close>, the span
  \<^verbatim>\<open>{not valid json}\<close> goes to the decoder, and its rejection is reported as
  \<^verbatim>\<open>MalformedJson\<close> with the decoder's diagnostic.
\<close>

theorem not_valid_json_is_no_json_found:
  "parse_and_normalize loads rp (S ''Sure! {not valid json'') = Inl NoJsonFound
   \<and> (loads (S ''{not valid json}'') = JSONDecodeError msg \<longrightarrow>
        parse_and_normalize loads rp (S ''Sure! {not valid json}'') = Inl (MalformedJson msg))"
  by (simp add: parse_and_normalize_def parse_llm_json_cases brace_span_def first_index_def
      last_index_def)

theorem not_valid_json_is_no_json_found_witness:
  "parse_and_normalize
     (scripted_loads [(S ''{not valid json}'', JSONDecodeError
        (S ''Expecting property name enclosed in double quotes: line 1 column 2 (char 1)''))])
     (\<lambda>v. []) (S ''Sure! {not valid json}'') =
   Inl (MalformedJson
        (S ''Expecting property name enclosed in double quotes: line 1 column 2 (char 1)''))"
  using not_valid_json_is_no_json_found[of
      "scripted_loads [(S ''{not valid json}'', JSONDecodeError
        (S ''Expecting property name enclosed in double quotes: line 1 column 2 (char 1)''))]"
      "\<lambda>v. []"
      "S ''Expecting property name enclosed in double quotes: line 1 column 2 (char 1)''"]
  by (simp add: scripted_loads_def)

text \<open>
  C5 as stated fails: even with a decoder that rejects \<^verbatim>\<open>{not valid json\<close> with a
  diagnostic, the failure is \<^verbatim>\<open>NoJsonFound\<close> and not \<^verbatim>\<open>MalformedJson\<close>.
\<close>

theorem not_valid_json_counterexample:
  "parse_and_normalize
     (scripted_loads [(S ''{not valid json'', JSONDecodeError
        (S ''Expecting property name enclosed in double quotes: line 1 column 2 (char 1)''))])
     (\<lambda>v. []) (S ''Sure! {not valid json'') = Inl NoJsonFound
   \<and> \<not> (\<exists>msg. parse_and_normalize
     (scripted_loads [(S ''{not valid json'', JSONDecodeError
        (S ''Expecting property name enclosed in double quotes: line 1 column 2 (char 1)''))])
     (\<lambda>v. []) (S ''Sure! {not valid json'') = Inl (MalformedJson msg))"
  by (simp add: parse_and_normalize_def parse_llm_json_cases)

section \<open>The model invocation\<close>

text \<open>
  Without a credential \<^verbatim>\<open>call_llm\<close> fails before anything is sent; with one it sends
  exactly one request; a status other than 200 is reported with the status and the body.
\<close>

lemma call_llm_no_token:
  "\<not> token_set (HF_API_TOKEN e) \<Longrightarrow> call_llm e prompt n = ([], Inl AuthenticationMissing)"
  by (simp add: call_llm_def)

lemma call_llm_sends_once:
  "token_set (HF_API_TOKEN e) \<Longrightarrow>
     fst (call_llm e prompt n) =
       [\<lparr> req_url = API_URL, req_headers = HEADERS (HF_API_TOKEN e), req_inputs = prompt,
           req_max_new_tokens = n, req_temperature = S ''0.4'', req_timeout = 60 \<rparr>]"
  by (simp add: call_llm_def Let_def split: sum.split)

lemma call_llm_service_error:
  assumes "token_set (HF_API_TOKEN e)"
    and "requests_post e \<lparr> req_url = API_URL, req_headers = HEADERS (HF_API_TOKEN e),
           req_inputs = prompt, req_max_new_tokens = n, req_temperature = S ''0.4'',
           req_timeout = 60 \<rparr> = Inr resp"
    and "status_code resp \<noteq> 200"
  shows "snd (call_llm e prompt n) = Inl (ServiceError (status_code resp) (resp_text resp))"
  using assms by (simp add: call_llm_def Let_def)

text \<open>The two accepted shapes, and the fallback where it is reached.\<close>

lemma call_llm_result_dict:
  "map_of d (S ''generated_text'') = Some v \<Longrightarrow> call_llm_result rp (JObject d) = Inr v"
  by (simp add: call_llm_result_def)

lemma call_llm_result_list_of_dicts:
  "map_of d (S ''generated_text'') = Some v \<Longrightarrow>
     call_llm_result rp (JArray (JObject d # xs)) = Inr v"
  by (simp add: call_llm_result_def)

lemma call_llm_result_fallback:
  "map_of d (S ''generated_text'') = None \<Longrightarrow>
     call_llm_result rp (JObject d) = Inr (JString (rp (JObject d)))"
  "call_llm_result rp (JArray []) = Inr (JString (rp (JArray [])))"
  "map_of d (S ''generated_text'') = None \<Longrightarrow>
     call_llm_result rp (JArray (JObject d # xs)) = Inr (JString (rp (JArray (JObject d # xs))))"
  "call_llm_result rp (JString s) = Inr (JString s)"
  by (simp_all add: call_llm_result_def)

text \<open>
  C9. A response that matches neither shape does not always reach the fallback: when the
  first element of a list is a number, a bool or \<^verbatim>\<open>None\<close>, the membership test
  \<^verbatim>\<open>"generated_text" in data[0]\<close> raises a TypeError. With status 200 and the body
  \<^verbatim>\<open>[5]\<close>, \<^verbatim>\<open>call_llm\<close> raises instead of returning \<^verbatim>\<open>str(data)\<close>.
\<close>

theorem call_llm_fallback_raises:
  "call_llm demo_env prompt 256 =
     ([\<lparr> req_url = API_URL, req_headers = [(S ''Authorization'', S ''Bearer hf_secret'')],
          req_inputs = prompt, req_max_new_tokens = 256, req_temperature = S ''0.4'',
          req_timeout = 60 \<rparr>],
      Inl TypeError)"
  by (simp add: call_llm_def demo_env_def token_set_def HEADERS_def call_llm_result_def Let_def)

section \<open>The prompt\<close>

lemma py_strip_core:
  assumes "py_isspace w" "py_isspace w'" "\<not> py_isspace c" "\<not> py_isspace d"
  shows "py_strip (w # c # m @ [d, w']) = c # m @ [d]"
  using assms by (simp add: py_strip_def)

lemma prompt_intro_head:
  "concat (map (\<lambda>l. l @ [10]) prompt_intro) = 89 # tl (concat (map (\<lambda>l. l @ [10]) prompt_intro))"
  by (simp add: prompt_intro_def)

text \<open>
  The f-string begins and ends with a newline and has no other white space at its ends,
  so \<^verbatim>\<open>strip\<close> removes these two characters and nothing of the rating or the review.
\<close>

lemma build_prompt_eq:
  \<open>build_prompt rating review =
     concat (map (\<lambda>l. l @ [10]) prompt_intro)
     @ S ''Rating: '' @ str_int rating @ [10]
     @ S ''Review: """'' @ review @ S ''""" '' @ [10, 10] @ S ''JSON:''\<close>
proof -
  define intro where "intro = tl (concat (map (\<lambda>l. l @ [10]) prompt_intro))"
  have i: "concat (map (\<lambda>l. l @ [10]) prompt_intro) = 89 # intro"
    unfolding intro_def by (rule prompt_intro_head)
  define m where \<open>m = intro @ S ''Rating: '' @ str_int rating @ [10]
     @ S ''Review: """'' @ review @ S ''""" '' @ [10, 10] @ S ''JSON''\<close>
  have "build_prompt rating review = py_strip (10 # 89 # m @ [58, 10])"
    unfolding build_prompt_def i m_def by simp
  also have "\<dots> = 89 # m @ [58]"
    by (rule py_strip_core) (simp_all add: py_isspace_def)
  finally show ?thesis
    unfolding i m_def by simp
qed

lemma str_int_5: "str_int 5 = S ''5''"
  by (simp add: str_int_def str_nat.simps)

text \<open>
  C8. For every rating and every review the prompt contains \<^verbatim>\<open>Rating: \<close> followed by
  the rating, contains the review as it is, and ends in \<^verbatim>\<open>JSON:\<close>; in particular
  \<^verbatim>\<open>build_prompt(5, "Great food!")\<close> contains \<^verbatim>\<open>Rating: 5\<close> and \<^verbatim>\<open>Great food!\<close> and
  ends in \<^verbatim>\<open>JSON:\<close>. \<open>build_prompt\<close> is a function of its two arguments only.
\<close>

theorem build_prompt_contents:
  \<open>sublist (S ''Rating: '' @ str_int rating) (build_prompt rating review)
   \<and> sublist review (build_prompt rating review)
   \<and> suffix (S ''JSON:'') (build_prompt rating review)
   \<and> sublist (S ''Rating: 5'') (build_prompt 5 (S ''Great food!''))
   \<and> sublist (S ''Great food!'') (build_prompt 5 (S ''Great food!''))
   \<and> suffix (S ''JSON:'') (build_prompt 5 (S ''Great food!''))\<close>
proof -
  have r: \<open>sublist (S ''Rating: '' @ str_int rating) (build_prompt rating review)\<close>
    for rating review
    unfolding build_prompt_eq sublist_def
    by (rule exI[of _ "concat (map (\<lambda>l. l @ [10]) prompt_intro)"],
        rule exI[of _ \<open>[10] @ S ''Review: """'' @ review @ S ''""" '' @ [10, 10] @ S ''JSON:''\<close>])
       simp
  have v: \<open>sublist review (build_prompt rating review)\<close> for rating review
    unfolding build_prompt_eq sublist_def
    by (rule exI[of _ \<open>concat (map (\<lambda>l. l @ [10]) prompt_intro)
          @ S ''Rating: '' @ str_int rating @ [10] @ S ''Review: """''\<close>],
        rule exI[of _ \<open>S ''""" '' @ [10, 10] @ S ''JSON:''\<close>])
       simp
  have j: \<open>suffix (S ''JSON:'') (build_prompt rating review)\<close> for rating review
    unfolding build_prompt_eq suffix_def
    by (rule exI[of _ \<open>concat (map (\<lambda>l. l @ [10]) prompt_intro)
          @ S ''Rating: '' @ str_int rating @ [10] @ S ''Review: """'' @ review
          @ S ''""" '' @ [10, 10]\<close>])
       simp
  show ?thesis
    using r[of rating review] v j r[of 5 \<open>S ''Great food!''\<close>]
    by (simp add: str_int_5)
qed

section \<open>The section-header mode\<close>

lemma unbordered_ACTIONS: "unbordered (S ''ACTIONS:'')"
  by (simp add: unbordered_def upt_rec)

lemma unbordered_SUMMARY: "unbordered (S ''SUMMARY:'')"
  by (simp add: unbordered_def upt_rec)

lemma py_split_no_sep: "\<not> sublist sep s \<Longrightarrow> py_split sep s = [s]"
  by (subst py_split.simps) (simp add: find_sub_None_iff[symmetric])

lemma py_split_first:
  assumes "unbordered sep" "\<not> sublist sep pre"
  shows "py_split sep (pre @ sep @ rest) = pre # py_split sep rest"
proof -
  have "sep \<noteq> []"
    using assms(1) by (simp add: unbordered_def)
  then show ?thesis
    by (subst py_split.simps) (simp add: find_sub_first[OF assms])
qed

lemma py_split_not_Nil: "py_split sep s \<noteq> []"
  by (subst py_split.simps) (simp split: option.split)

lemma py_replace_no_old: "old \<noteq> [] \<Longrightarrow> \<not> sublist old s \<Longrightarrow> py_replace old new s = s"
  by (subst py_replace.simps) (simp add: find_sub_None_iff[symmetric])

lemma py_replace_first:
  assumes "unbordered old" "\<not> sublist old pre"
  shows "py_replace old new (pre @ old @ rest) = pre @ new @ py_replace old new rest"
proof -
  have "old \<noteq> []"
    using assms(1) by (simp add: unbordered_def)
  then show ?thesis
    by (subst py_replace.simps) (simp add: find_sub_first[OF assms])
qed

text \<open>
  Replacing a marker by the empty text in pieces joined by the marker leaves the pieces,
  one after the other.
\<close>

lemma py_replace_join:
  "unbordered m \<Longrightarrow> \<forall>p\<in>set ps. \<not> sublist m p \<Longrightarrow> py_replace m [] (py_join m ps) = concat ps"
proof (induction m ps rule: py_join.induct)
  case (1 sep)
  then have "sep \<noteq> []"
    by (simp add: unbordered_def)
  then show ?case
    by (simp add: py_replace_no_old)
next
  case (2 sep p)
  then have "sep \<noteq> []"
    by (simp add: unbordered_def)
  with 2 show ?case
    by (simp add: py_replace_no_old)
next
  case (3 sep p q ps)
  then have "\<not> sublist sep p"
    by simp
  then have "py_replace sep [] (p @ sep @ py_join sep (q # ps)) =
      p @ [] @ py_replace sep [] (py_join sep (q # ps))"
    using "3.prems"(1) by (rule py_replace_first[rotated])
  then show ?case
    using 3 by simp
qed

text \<open>
  Every text is the pieces that \<^verbatim>\<open>split\<close> cuts it into, joined by the separator, and
  no piece contains the separator: the pieces of the lemma above are those of any text.
\<close>

lemma py_split_pieces_free:
  "sep \<noteq> [] \<Longrightarrow> p \<in> set (py_split sep s) \<Longrightarrow> \<not> sublist sep p"
proof (induction sep s rule: py_split.induct)
  case (1 sep s)
  show ?case
  proof (cases "find_sub sep s")
    case None
    with "1.prems" show ?thesis
      by (subst (asm) py_split.simps) (simp add: find_sub_None_iff)
  next
    case (Some i)
    from "1.prems"(2) have "p = take i s \<or> p \<in> set (py_split sep (drop (i + length sep) s))"
      using Some "1.prems"(1) by (subst (asm) py_split.simps) simp
    then show ?thesis
      using find_sub_before[OF Some "1.prems"(1)] "1.IH"[OF Some "1.prems"(1) "1.prems"(1)]
      by blast
  qed
qed

lemma py_join_Cons:
  "qs \<noteq> [] \<Longrightarrow> py_join sep (p # qs) = p @ sep @ py_join sep qs"
  by (cases qs) simp_all

lemma py_join_split: "sep \<noteq> [] \<Longrightarrow> py_join sep (py_split sep s) = s"
proof (induction sep s rule: py_split.induct)
  case (1 sep s)
  show ?case
  proof (cases "find_sub sep s")
    case None
    then show ?thesis
      by (subst py_split.simps) simp
  next
    case (Some i)
    have "prefix sep (drop i s)"
      using find_sub_SomeD[OF Some] by simp
    then obtain r where r: "drop i s = sep @ r"
      by (auto simp: prefix_def)
    then have "drop (i + length sep) s = r"
      by (metis add.commute append_eq_conv_conj drop_drop)
    moreover have "s = take i s @ sep @ r"
      using append_take_drop_id[of i s] r by simp
    ultimately show ?thesis
      using "1.IH"[OF Some "1.prems" "1.prems"] Some "1.prems"
      by (subst py_split.simps) (simp add: py_join_Cons py_split_not_Nil)
  qed
qed

text \<open>
  \<^verbatim>\<open>split\<close> never returns an empty list, so neither subscript of lines 90 and 91 can
  raise.
\<close>

lemma parse_sections_eq:
  "parse_sections analysis =
     Inr (py_strip (py_replace (S ''SUMMARY:'') [] (hd (py_split (S ''ACTIONS:'') analysis))),
          if 1 < length (py_split (S ''ACTIONS:'') analysis)
          then py_strip (py_split (S ''ACTIONS:'') analysis ! 1)
          else S ''Could not parse actions.'')"
proof -
  have "py_split (S ''ACTIONS:'') analysis \<noteq> []"
    by (rule py_split_not_Nil)
  then show ?thesis
    by (cases "py_split (S ''ACTIONS:'') analysis")
       (simp_all add: parse_sections_def py_index_def Let_def)
qed

lemma parse_sections_no_marker:
  assumes "\<not> sublist (S ''ACTIONS:'') analysis"
  shows "parse_sections analysis =
     Inr (py_strip (py_replace (S ''SUMMARY:'') [] analysis), S ''Could not parse actions.'')"
  unfolding parse_sections_eq py_split_no_sep[OF assms] by simp

lemma parse_sections_marker:
  assumes "\<not> sublist (S ''ACTIONS:'') pre"
  shows "parse_sections (pre @ S ''ACTIONS:'' @ rest) =
     Inr (py_strip (py_replace (S ''SUMMARY:'') [] pre),
          py_strip (hd (py_split (S ''ACTIONS:'') rest)))"
proof -
  have "py_split (S ''ACTIONS:'') (pre @ S ''ACTIONS:'' @ rest) =
      pre # py_split (S ''ACTIONS:'') rest"
    using unbordered_ACTIONS assms by (rule py_split_first)
  moreover have "py_split (S ''ACTIONS:'') rest \<noteq> []"
    by (rule py_split_not_Nil)
  ultimately show ?thesis
    unfolding parse_sections_eq
    by (cases "py_split (S ''ACTIONS:'') rest") simp_all
qed

text \<open>
  C6, as amended. The text is split at every occurrence of \<^verbatim>\<open>ACTIONS:\<close>. For every
  input containing the marker, the summary is the text before the first marker with
  \<^verbatim>\<open>SUMMARY:\<close> replaced by nothing and then trimmed, and the actions are the text
  between the first marker and the second one, trimmed: all of the text after the
  marker when the marker occurs once.
\<close>

theorem parse_sections_at_marker:
  assumes "\<not> sublist (S ''ACTIONS:'') pre"
  shows "(\<not> sublist (S ''ACTIONS:'') rest \<longrightarrow>
            parse_sections (pre @ S ''ACTIONS:'' @ rest) =
              Inr (py_strip (py_replace (S ''SUMMARY:'') [] pre), py_strip rest))
       \<and> (\<not> sublist (S ''ACTIONS:'') mid \<longrightarrow>
            parse_sections (pre @ S ''ACTIONS:'' @ mid @ S ''ACTIONS:'' @ later) =
              Inr (py_strip (py_replace (S ''SUMMARY:'') [] pre), py_strip mid))"
proof (intro conjI impI)
  assume "\<not> sublist (S ''ACTIONS:'') rest"
  then show "parse_sections (pre @ S ''ACTIONS:'' @ rest) =
      Inr (py_strip (py_replace (S ''SUMMARY:'') [] pre), py_strip rest)"
    unfolding parse_sections_marker[OF assms] by (simp add: py_split_no_sep)
next
  assume "\<not> sublist (S ''ACTIONS:'') mid"
  then have "py_split (S ''ACTIONS:'') (mid @ S ''ACTIONS:'' @ later) =
      mid # py_split (S ''ACTIONS:'') later"
    using unbordered_ACTIONS by (rule py_split_first[rotated])
  then show "parse_sections (pre @ S ''ACTIONS:'' @ mid @ S ''ACTIONS:'' @ later) =
      Inr (py_strip (py_replace (S ''SUMMARY:'') [] pre), py_strip mid)"
    unfolding parse_sections_marker[OF assms] by simp
qed

theorem parse_sections_at_marker_witness:
  "parse_sections (S ''SUMMARY: great day ACTIONS: - do X'' @ [10] @ S ''- do Y'') =
      Inr (S ''great day'', S ''- do X'' @ [10] @ S ''- do Y'')
   \<and> parse_sections (S ''x ACTIONS: y ACTIONS: z'') = Inr (S ''x'', S ''y'')"
proof -
  have n1: "\<not> sublist (S ''ACTIONS:'') (S ''SUMMARY: great day '')"
    by (simp add: sublist_Cons_right)
  have n2: "\<not> sublist (S ''ACTIONS:'') (S '' - do X'' @ [10] @ S ''- do Y'')"
    by (simp add: sublist_Cons_right)
  have n3: "\<not> sublist (S ''ACTIONS:'') (S ''x '')"
    by (simp add: sublist_Cons_right)
  have n4: "\<not> sublist (S ''ACTIONS:'') (S '' y '')"
    by (simp add: sublist_Cons_right)
  have r: "py_replace (S ''SUMMARY:'') [] (S ''SUMMARY: great day '') = S '' great day ''"
    using py_replace_first[OF unbordered_SUMMARY, of "[]" "[]" "S '' great day ''"]
    by (simp add: py_replace_no_old sublist_Cons_right)
  have r': "py_replace (S ''SUMMARY:'') [] (S ''x '') = S ''x ''"
    by (simp add: py_replace_no_old sublist_Cons_right)
  show ?thesis
    using parse_sections_at_marker[OF n1, of "S '' - do X'' @ [10] @ S ''- do Y''"] n2
      parse_sections_at_marker[OF n3, of _ "S '' y ''" "S '' z''"] n4 r r'
    by (simp add: py_strip_def py_isspace_def)
qed

text \<open>
  C6 as stated fails: with two markers the text is cut into three parts and the actions
  are the second part only, not all of the text after the first marker.
\<close>

theorem split_every_marker_counterexample:
  "parse_sections (S ''a ACTIONS: b ACTIONS: c'') = Inr (S ''a'', S ''b'')
   \<and> py_strip (S '' b ACTIONS: c'') = S ''b ACTIONS: c''"
proof -
  have n3: "\<not> sublist (S ''ACTIONS:'') (S ''a '')"
    by (simp add: sublist_Cons_right)
  have n4: "\<not> sublist (S ''ACTIONS:'') (S '' c'')"
    by (simp add: sublist_Cons_right)
  have "py_split (S ''ACTIONS:'') (S ''a ACTIONS: b ACTIONS: c'') = [S ''a '', S '' b '', S '' c'']"
    using py_split_first[OF unbordered_ACTIONS n3, of "S '' b ACTIONS: c''"]
      py_split_first[OF unbordered_ACTIONS, of "S '' b ''" "S '' c''"]
      py_split_no_sep[OF n4]
    by (simp add: sublist_Cons_right)
  then show ?thesis
    by (simp add: parse_sections_eq py_replace_no_old sublist_Cons_right py_strip_def py_isspace_def)
qed

text \<open>
  C7. The section-header mode never fails: every text gives two blocks. Without the
  marker \<^verbatim>\<open>ACTIONS:\<close> the actions are \<^verbatim>\<open>Could not parse actions.\<close> and the summary is
  the whole input with \<^verbatim>\<open>SUMMARY:\<close> replaced by nothing and then trimmed.
\<close>

theorem parse_sections_total:
  "(\<exists>sm ac. parse_sections analysis = Inr (sm, ac))
   \<and> (\<not> sublist (S ''ACTIONS:'') analysis \<longrightarrow>
        parse_sections analysis =
          Inr (py_strip (py_replace (S ''SUMMARY:'') [] analysis), S ''Could not parse actions.''))"
  by (simp add: parse_sections_no_marker) (simp add: parse_sections_eq)

theorem parse_sections_total_witness:
  "parse_sections (S ''  SUMMARY: all good  '') = Inr (S ''all good'', S ''Could not parse actions.'')"
proof -
  have n: "\<not> sublist (S ''ACTIONS:'') (S ''  SUMMARY: all good  '')"
    by (simp add: sublist_Cons_right)
  have r: "py_replace (S ''SUMMARY:'') [] (S ''  SUMMARY: all good  '') = S ''   all good  ''"
    using py_replace_first[OF unbordered_SUMMARY, of "S ''  ''" "[]" "S '' all good  ''"]
    by (simp add: py_replace_no_old sublist_Cons_right)
  show ?thesis
    using parse_sections_total[of "S ''  SUMMARY: all good  ''"] n r
    by (simp add: py_strip_def py_isspace_def)
qed

text \<open>
  C10. The marker \<^verbatim>\<open>SUMMARY:\<close> is removed wherever it occurs before \<^verbatim>\<open>ACTIONS:\<close>, not
  only at the start: when the text before the marker \<^verbatim>\<open>ACTIONS:\<close> (or the whole text,
  without that marker) consists of pieces separated by \<^verbatim>\<open>SUMMARY:\<close>, the summary is the
  pieces one after the other, trimmed.
\<close>

theorem summary_marker_removed_everywhere:
  assumes "\<forall>p\<in>set (p0 # ps). \<not> sublist (S ''SUMMARY:'') p"
    and "\<not> sublist (S ''ACTIONS:'') (py_join (S ''SUMMARY:'') (p0 # ps))"
  shows "(\<exists>ac. parse_sections (py_join (S ''SUMMARY:'') (p0 # ps) @ S ''ACTIONS:'' @ rest) =
            Inr (py_strip (concat (p0 # ps)), ac))
       \<and> parse_sections (py_join (S ''SUMMARY:'') (p0 # ps)) =
            Inr (py_strip (concat (p0 # ps)), S ''Could not parse actions.'')"
proof -
  have "py_replace (S ''SUMMARY:'') [] (py_join (S ''SUMMARY:'') (p0 # ps)) = concat (p0 # ps)"
    using unbordered_SUMMARY assms(1) by (rule py_replace_join)
  then show ?thesis
    by (simp only: parse_sections_marker[OF assms(2)] parse_sections_no_marker[OF assms(2)])
       simp
qed

theorem summary_marker_removed_everywhere_witness:
  "parse_sections (S ''SUMMARY: slow SUMMARY: but kind ACTIONS: hire'') =
      Inr (S ''slow  but kind'', S ''hire'')
   \<and> parse_sections (S ''SUMMARY: slow SUMMARY: but kind '') =
      Inr (S ''slow  but kind'', S ''Could not parse actions.'')"
proof -
  have a: "\<forall>p\<in>set ([] # [S '' slow '', S '' but kind '']). \<not> sublist (S ''SUMMARY:'') p"
    by (simp add: sublist_Cons_right)
  have b: "\<not> sublist (S ''ACTIONS:'') (py_join (S ''SUMMARY:'') ([] # [S '' slow '', S '' but kind '']))"
    by (simp add: sublist_Cons_right)
  have c: "\<not> sublist (S ''ACTIONS:'') (S ''SUMMARY: slow SUMMARY: but kind '')"
    by (simp add: sublist_Cons_right)
  have d: "\<not> sublist (S ''ACTIONS:'') (S '' hire'')"
    by (simp add: sublist_Cons_right)
  have e: "parse_sections (S ''SUMMARY: slow SUMMARY: but kind ACTIONS: hire'') =
      Inr (py_strip (py_replace (S ''SUMMARY:'') [] (S ''SUMMARY: slow SUMMARY: but kind '')),
           S ''hire'')"
    using parse_sections_marker[OF c, of "S '' hire''"] py_split_no_sep[OF d]
    by (simp add: py_strip_def py_isspace_def)
  show ?thesis
    using summary_marker_removed_everywhere[OF a b, of "S '' hire''"] e
    by (auto simp: py_strip_def py_isspace_def)
qed

end
